theory Spec2Isabelle
  imports Main "HOL-Library.Sublist"
begin

section \<open>JavaScript strings\<close>

text \<open>
  A JavaScript string is modelled as a \<^typ>\<open>string\<close>, one \<^typ>\<open>char\<close> per code unit.
  The empty string is the only falsy string; \<open>undefined\<close> and \<open>null\<close> are \<open>None\<close>.
\<close>

definition truthy :: "string option \<Rightarrow> bool" where
  "truthy v = (case v of None \<Rightarrow> False | Some s \<Rightarrow> s \<noteq> [])"

definition truthy_flag :: "bool option \<Rightarrow> bool" where
  "truthy_flag v = (case v of None \<Rightarrow> False | Some b \<Rightarrow> b)"

text \<open>\<open>s.startsWith(p)\<close>, \<open>s.endsWith(p)\<close> and \<open>s.includes(p)\<close>.\<close>

fun startsWith :: "string \<Rightarrow> string \<Rightarrow> bool" where
  "startsWith s [] = True"
| "startsWith [] (p # ps) = False"
| "startsWith (c # cs) (p # ps) = (c = p \<and> startsWith cs ps)"

definition endsWith :: "string \<Rightarrow> string \<Rightarrow> bool" where
  "endsWith s p = startsWith (rev s) (rev p)"

fun str_includes :: "string \<Rightarrow> string \<Rightarrow> bool" where
  "str_includes [] p = (p = [])"
| "str_includes (c # cs) p = (startsWith (c # cs) p \<or> str_includes cs p)"

text \<open>
  Case folding of one code unit: \<open>A\<close>..\<open>Z\<close> go to \<open>a\<close>..\<open>z\<close> (bit 5 set), every other
  code unit stays. The regular expression flag \<open>i\<close> (without \<open>u\<close>) never identifies a
  code unit of 128 or more with an ASCII letter, and \<open>toLowerCase\<close> maps no other code unit
  to \<open>r\<close>, so this folding decides both tests of the source that use it.
\<close>

fun ascii_lower :: "char \<Rightarrow> char" where
  "ascii_lower (Char b0 b1 b2 b3 b4 b5 b6 b7) =
     (let n = of_char (Char b0 b1 b2 b3 b4 b5 b6 b7) :: nat
      in if 65 \<le> n \<and> n \<le> 90 then Char b0 b1 b2 b3 b4 True b6 b7
         else Char b0 b1 b2 b3 b4 b5 b6 b7)"

definition toLowerCase :: "string \<Rightarrow> string" where
  "toLowerCase s = map ascii_lower s"

text \<open>The test \<open>/\.(jpg|jpeg|png|gif)$/i.test(url)\<close>: \<open>$\<close> is the end of the input.\<close>

definition image_ext_test :: "string \<Rightarrow> bool" where
  "image_ext_test u =
     (let l = toLowerCase u
      in endsWith l ''.jpg'' \<or> endsWith l ''.jpeg'' \<or> endsWith l ''.png'' \<or> endsWith l ''.gif'')"

text \<open>\<open>s.split(sep)\<close> for a one-character separator: the pieces between separators.\<close>

fun split_str :: "char \<Rightarrow> string \<Rightarrow> string list" where
  "split_str sep [] = [[]]"
| "split_str sep (c # cs) =
     (if c = sep then [] # split_str sep cs
      else (case split_str sep cs of
              [] \<Rightarrow> [[c]]
            | p # ps \<Rightarrow> (c # p) # ps))"

text \<open>Decimal rendering of a number in a template literal.\<close>

definition digit_char :: "nat \<Rightarrow> char" where
  "digit_char d =
     (if d = 0 then CHR ''0'' else if d = 1 then CHR ''1'' else if d = 2 then CHR ''2''
      else if d = 3 then CHR ''3'' else if d = 4 then CHR ''4'' else if d = 5 then CHR ''5''
      else if d = 6 then CHR ''6'' else if d = 7 then CHR ''7'' else if d = 8 then CHR ''8''
      else CHR ''9'')"

fun string_of_nat :: "nat \<Rightarrow> string" where
  "string_of_nat n =
     (if n < 10 then [digit_char n] else string_of_nat (n div 10) @ [digit_char (n mod 10)])"

declare string_of_nat.simps [simp del]

section \<open>Data model\<close>

datatype media_type = Image | Video | Redgifs

datatype post_hint = HintImage | HintHostedVideo | HintLink | HintRichVideo | HintSelf

text \<open>
  The listing entry of the Reddit API. Of the nested objects only the fields the code
  reads are kept; an optional field is an \<open>option\<close>.
\<close>

record RedditVideo =
  fallback_url :: "string option"

record Preview =
  reddit_video_preview :: "RedditVideo option"

record Oembed =
  provider_name :: "string option"

record Media =
  reddit_video :: "RedditVideo option"
  oembed :: "Oembed option"

record SecureMediaEmbed =
  media_domain_url :: "string option"

record RedditPostData =
  title :: string
  permalink :: string
  url :: string
  post_hint :: "post_hint option"
  is_video :: bool
  is_gallery :: "bool option"
  stickied :: "bool option"
  domain :: string
  preview :: "Preview option"
  media :: "Media option"
  secure_media_embed :: "SecureMediaEmbed option"

record RedditListingChild =
  kind :: string
  data :: "RedditPostData option"

record RedditListingData =
  children :: "RedditListingChild list option"

record RedditApiResponse =
  kind :: string
  data :: "RedditListingData option"

record RedditTokenResponse =
  access_token :: string
  token_type :: string
  expires_in :: int

record MediaPost =
  mediaUrl :: string
  mediaType :: media_type
  title :: string
  redditUrl :: string

section \<open>Feed classifier\<close>

text \<open>The optional chains \<open>media?.reddit_video?.fallback_url\<close> and friends.\<close>

definition video_fallback_url :: "RedditPostData \<Rightarrow> string option" where
  "video_fallback_url postData =
     Option.bind (Option.bind (media postData) reddit_video) fallback_url"

definition oembed_provider_name :: "RedditPostData \<Rightarrow> string option" where
  "oembed_provider_name postData =
     Option.bind (Option.bind (media postData) oembed) provider_name"

definition embed_media_domain_url :: "RedditPostData \<Rightarrow> string option" where
  "embed_media_domain_url postData =
     Option.bind (secure_media_embed postData) media_domain_url"

definition preview_fallback_url :: "RedditPostData \<Rightarrow> string option" where
  "preview_fallback_url postData =
     Option.bind (Option.bind (preview postData) reddit_video_preview) fallback_url"

definition str_of :: "string option \<Rightarrow> string" where
  "str_of v = (case v of None \<Rightarrow> [] | Some s \<Rightarrow> s)"

text \<open>
  The value of \<open>foundMedia\<close> after the if-chain of the loop body of \<open>scrapeTrendyImages\<close>:
  \<open>None\<close> is \<open>null\<close>. \<^const>\<open>str_of\<close> reads an optional string only where the source
  has just tested it truthy.
\<close>

definition foundMedia :: "RedditPostData \<Rightarrow> (string \<times> media_type) option" where
  "foundMedia postData =
     (if post_hint postData = Some HintImage \<or> image_ext_test (url postData) then
        (if url postData \<noteq> [] \<and> \<not> str_includes (url postData) ''gallery''
         then Some (url postData, Image) else None)
      else if is_video postData \<and> truthy (video_fallback_url postData) then
        Some (str_of (video_fallback_url postData), Video)
      else if domain postData = ''redgifs.com''
              \<or> oembed_provider_name postData = Some ''Redgifs'' then
        (let redgifsUrl =
           (if truthy (embed_media_domain_url postData)
               \<and> str_includes (str_of (embed_media_domain_url postData)) ''redgifs.com''
            then str_of (embed_media_domain_url postData)
            else if truthy (preview_fallback_url postData)
               \<and> str_includes (str_of (preview_fallback_url postData)) ''redgifs''
            then str_of (preview_fallback_url postData)
            else url postData)
         in Some (redgifsUrl, Redgifs))
      else if post_hint postData = Some HintRichVideo \<or> post_hint postData = Some HintLink then
        (if domain postData = ''gfycat.com'' \<and> truthy (preview_fallback_url postData) then
           Some (str_of (preview_fallback_url postData), Video)
         else if domain postData = ''imgur.com'' \<and> endsWith (url postData) ''.gifv''
                 \<and> truthy (preview_fallback_url postData) then
           Some (str_of (preview_fallback_url postData), Video)
         else None)
      else None)"

section \<open>The loop over the listing\<close>

text \<open>
  One call of the \<open>forEach\<close> callback: the state is the pair of \<open>mediaPosts\<close> and
  \<open>skippedCount\<close>.
\<close>

definition untitled :: "string \<Rightarrow> string" where
  "untitled t = (if t \<noteq> [] then t else ''Untitled Post'')"

definition forEach_body ::
  "RedditListingChild \<Rightarrow> MediaPost list \<times> nat \<Rightarrow> MediaPost list \<times> nat" where
  "forEach_body child st =
     (case st of (mediaPosts, skippedCount) \<Rightarrow>
        if RedditListingChild.kind child \<noteq> ''t3'' \<or> RedditListingChild.data child = None
        then (mediaPosts, skippedCount + 1)
        else
          (case RedditListingChild.data child of
             None \<Rightarrow> (mediaPosts, skippedCount + 1)
           | Some postData \<Rightarrow>
               if truthy_flag (stickied postData) then (mediaPosts, skippedCount + 1)
               else if truthy_flag (is_gallery postData) then (mediaPosts, skippedCount + 1)
               else
                 (case foundMedia postData of
                    None \<Rightarrow> (mediaPosts, skippedCount + 1)
                  | Some (u, t) \<Rightarrow>
                      if u \<noteq> [] \<and> t = Image then
                        (if \<not> list_ex (\<lambda>p. mediaUrl p = u) mediaPosts then
                           (mediaPosts @
                              [\<lparr>mediaUrl = u, mediaType = t,
                                title = untitled (RedditPostData.title postData),
                                redditUrl = ''https://www.reddit.com'' @ permalink postData\<rparr>],
                            skippedCount)
                         else (mediaPosts, skippedCount + 1))
                      else (mediaPosts, skippedCount + 1))))"

fun forEach_children ::
  "RedditListingChild list \<Rightarrow> MediaPost list \<times> nat \<Rightarrow> MediaPost list \<times> nat" where
  "forEach_children [] st = st"
| "forEach_children (child # rest) st = forEach_children rest (forEach_body child st)"

section \<open>The platform\<close>

text \<open>
  What the code takes from its runtime is a parameter of the model, so every theorem holds
  for every behaviour of it: the URL parser \<open>new URL\<close> (\<open>None\<close> when it throws), the two
  environment variables, the readings of \<open>Date.now()\<close> (milliseconds since the epoch) and
  the outcome of the one request a call can send to each endpoint. An outcome is
  \<open>Inl m\<close> when \<open>fetch\<close> rejects with an \<open>Error\<close> of message \<open>m\<close>, and a response
  otherwise; the JSON body of a response is \<open>Inl m\<close> when \<open>response.json()\<close> rejects
  with message \<open>m\<close>. Request headers are not modelled.
\<close>

record URL =
  protocol :: string
  hostname :: string
  pathname :: string

datatype 'j response = Response (status: nat) (body_text: string) (body_json: "string + 'j")

definition ok :: "'j response \<Rightarrow> bool" where
  "ok r = (200 \<le> status r \<and> status r \<le> 299)"

record platform =
  new_URL :: "string \<Rightarrow> URL option"
  REDDIT_CLIENT_ID :: "string option"
  REDDIT_CLIENT_SECRET :: "string option"
  date_now :: nat
  date_now_on_grant :: nat
  grant_endpoint :: "string + RedditTokenResponse response"
  listing_endpoint :: "string + RedditApiResponse response"

datatype error = Error (message: string)

section \<open>Token manager\<close>

record token_cache =
  redditAccessToken :: "string option"
  tokenExpiryTime :: "int option"

definition empty_cache :: token_cache where
  "empty_cache = \<lparr>redditAccessToken = None, tokenExpiryTime = None\<rparr>"

definition tokenUrl :: string where
  "tokenUrl = ''https://www.reddit.com/api/v1/access_token''"

text \<open>
  The test \<open>redditAccessToken && tokenExpiryTime && now < tokenExpiryTime\<close>: a string is
  truthy when non-empty, a number when non-zero.
\<close>

definition cache_hit :: "nat \<Rightarrow> token_cache \<Rightarrow> bool" where
  "cache_hit now cache =
     (truthy (redditAccessToken cache)
      \<and> (case tokenExpiryTime cache of None \<Rightarrow> False | Some e \<Rightarrow> e \<noteq> 0 \<and> int now < e))"

text \<open>
  The body of the \<open>try\<close> block of \<open>getRedditAccessToken\<close>: the token and the new cache, or
  the error thrown and the cache at the throw.
\<close>

definition grant_try ::
  "platform \<Rightarrow> token_cache \<Rightarrow> (error \<times> token_cache) + (string \<times> token_cache)" where
  "grant_try pf cache =
     (case grant_endpoint pf of
        Inl m \<Rightarrow> Inl (Error m, cache)
      | Inr response \<Rightarrow>
          if \<not> ok response then
            (if status response = 401 then
               Inl (Error (''Failed to authenticate with Reddit API. Status: ''
                           @ string_of_nat (status response)
                           @ '' (Unauthorized). Please verify your REDDIT_CLIENT_ID and REDDIT_CLIENT_SECRET.''),
                    cache\<lparr>redditAccessToken := None, tokenExpiryTime := None\<rparr>)
             else
               Inl (Error (''Failed to authenticate with Reddit API. Status: ''
                           @ string_of_nat (status response)),
                    cache))
          else
            (case body_json response of
               Inl m \<Rightarrow> Inl (Error m, cache)
             | Inr tokenData \<Rightarrow>
                 if token_type tokenData \<noteq> ''bearer'' \<or> access_token tokenData = [] then
                   Inl (Error ''Failed to get a valid bearer token from Reddit.'', cache)
                 else
                   Inr (access_token tokenData,
                        cache\<lparr>redditAccessToken := Some (access_token tokenData),
                              tokenExpiryTime :=
                                Some (int (date_now_on_grant pf)
                                      + (expires_in tokenData - 300) * 1000)\<rparr>)))"

text \<open>
  \<open>getRedditAccessToken\<close>: the result (\<open>Inl\<close> the error thrown), the cache after the call
  and the URLs requested, in order.
\<close>

definition getRedditAccessToken ::
  "platform \<Rightarrow> token_cache \<Rightarrow> (error + string) \<times> token_cache \<times> string list" where
  "getRedditAccessToken pf cache =
     (if cache_hit (date_now pf) cache then
        (Inr (str_of (redditAccessToken cache)), cache, [])
      else if \<not> truthy (REDDIT_CLIENT_ID pf) \<or> \<not> truthy (REDDIT_CLIENT_SECRET pf) then
        (Inl (Error ''Reddit API credentials are missing. Please configure them in your .env file.''),
         cache, [])
      else
        (case grant_try pf cache of
           Inr (token, cache') \<Rightarrow> (Inr token, cache', [tokenUrl])
         | Inl (err, cache') \<Rightarrow>
             (let cleared = cache'\<lparr>redditAccessToken := None, tokenExpiryTime := None\<rparr>
              in if str_includes (message err) ''Failed to authenticate'' then
                   (Inl err, cleared, [tokenUrl])
                 else if str_includes (message err) ''Reddit API credentials are missing'' then
                   (Inl err, cleared, [tokenUrl])
                 else
                   (Inl (Error ''Could not connect to Reddit API to get access token.''),
                    cleared, [tokenUrl]))))"

section \<open>Listing fetcher\<close>

text \<open>
  \<open>extractSubredditName\<close>: the path segment after \<open>r\<close>, \<open>None\<close> for \<open>null\<close>. The
  indices 0 and 1 are read only when the list has two elements at least.
\<close>

definition extractSubredditName :: "platform \<Rightarrow> string \<Rightarrow> string option" where
  "extractSubredditName pf u =
     (case new_URL pf u of
        None \<Rightarrow> None
      | Some parsedUrl \<Rightarrow>
          (let pathParts = filter (\<lambda>part. part \<noteq> []) (split_str CHR ''/'' (pathname parsedUrl))
           in if length pathParts \<ge> 2 \<and> toLowerCase (pathParts ! 0) = ''r''
              then Some (pathParts ! 1) else None))"

definition apiUrl :: "string \<Rightarrow> nat \<Rightarrow> string" where
  "apiUrl subredditName limit =
     ''https://oauth.reddit.com/r/'' @ subredditName @ ''/hot?limit=''
       @ string_of_nat (min limit 100)"

text \<open>
  The body of the second \<open>try\<close> block of \<open>scrapeTrendyImages\<close>, after the request: the
  list returned, or the error thrown, with the cache at that point.
\<close>

definition listing_try ::
  "platform \<Rightarrow> string \<Rightarrow> token_cache \<Rightarrow> (error \<times> token_cache) + (MediaPost list \<times> token_cache)"
  where
  "listing_try pf subredditName cache =
     (case listing_endpoint pf of
        Inl m \<Rightarrow> Inl (Error m, cache)
      | Inr response \<Rightarrow>
          if \<not> ok response then
            (let errorBody = body_text response
             in if status response = 401 then
                  Inl (Error ''Reddit API authentication failed (401 Unauthorized). Access token might be expired or invalid. Please ensure credentials in .env are correct.'',
                       cache\<lparr>redditAccessToken := None, tokenExpiryTime := None\<rparr>)
                else if status response = 404 then
                  Inl (Error (''Subreddit '' @ [CHR 0x27] @ ''r/'' @ subredditName @ [CHR 0x27]
                              @ '' not found or is private (404).''),
                       cache)
                else if status response = 403 then
                  Inl (Error (''Access denied (403 Forbidden) when fetching r/'' @ subredditName
                              @ ''. Possible reasons: Invalid API key permissions, blocked User-Agent, IP restrictions, or subreddit access rules.''),
                       cache)
                else if status response = 429 then
                  Inl (Error ''Rate limited by Reddit (429 Too Many Requests). Please wait and try again later.'',
                       cache)
                else
                  Inl (Error (''Failed to fetch data from Reddit API. Status: ''
                              @ string_of_nat (status response) @ ''. Details: ''
                              @ take 100 errorBody @ ''...''),
                       cache))
          else
            (case body_json response of
               Inl m \<Rightarrow> Inl (Error m, cache)
             | Inr listing \<Rightarrow>
                 (case Option.bind (RedditApiResponse.data listing) children of
                    None \<Rightarrow> Inl (Error ''Received invalid data structure from Reddit API.'', cache)
                  | Some cs \<Rightarrow>
                      if RedditApiResponse.kind listing \<noteq> ''Listing'' then
                        Inl (Error ''Received invalid data structure from Reddit API.'', cache)
                      else Inr (fst (forEach_children cs ([], 0)), cache))))"

text \<open>The test of the last \<open>catch\<close> block: the errors it throws again as they are.\<close>

definition rethrown :: "string \<Rightarrow> bool" where
  "rethrown m =
     (str_includes m ''credentials are missing''
      \<or> str_includes m ''Failed to authenticate''
      \<or> str_includes m ''401 Unauthorized''
      \<or> str_includes m ''Could not connect''
      \<or> str_includes m ''Invalid subreddit URL format''
      \<or> str_includes m ''(404)''
      \<or> str_includes m ''(403)''
      \<or> str_includes m ''(429)''
      \<or> str_includes m ''invalid data structure'')"

text \<open>
  \<open>scrapeTrendyImages\<close>: the result (\<open>Inl\<close> the error thrown), the cache after the call and
  the URLs requested, in order.
\<close>

definition scrapeTrendyImages ::
  "platform \<Rightarrow> string \<Rightarrow> nat \<Rightarrow> token_cache
     \<Rightarrow> (error + MediaPost list) \<times> token_cache \<times> string list" where
  "scrapeTrendyImages pf subredditUrl limit cache =
     (case extractSubredditName pf subredditUrl of
        None \<Rightarrow>
          (Inl (Error ''Invalid subreddit URL format. Please use the format: https://www.reddit.com/r/subredditname/''),
           cache, [])
      | Some subredditName \<Rightarrow>
          if subredditName = [] then
            (Inl (Error ''Invalid subreddit URL format. Please use the format: https://www.reddit.com/r/subredditname/''),
             cache, [])
          else
            (case getRedditAccessToken pf cache of
               (Inl authError, cache1, reqs) \<Rightarrow> (Inl authError, cache1, reqs)
             | (Inr accessToken, cache1, reqs) \<Rightarrow>
                 (let reqs2 = reqs @ [apiUrl subredditName limit]
                  in case listing_try pf subredditName cache1 of
                       Inr (mediaPosts, cache2) \<Rightarrow> (Inr mediaPosts, cache2, reqs2)
                     | Inl (err, cache2) \<Rightarrow>
                         if rethrown (message err) then (Inl err, cache2, reqs2)
                         else
                           (Inl (Error (''An unexpected error occurred while processing data from Reddit API for r/''
                                        @ subredditName @ ''.'')),
                            cache2, reqs2))))"

section \<open>Sanitizer\<close>

definition isValidAndAllowedUrl :: "platform \<Rightarrow> string \<Rightarrow> string set \<Rightarrow> bool" where
  "isValidAndAllowedUrl pf u allowedHostnames =
     (if u = [] then False
      else (case new_URL pf u of
              None \<Rightarrow> False
            | Some parsed \<Rightarrow>
                (protocol parsed = ''http:'' \<or> protocol parsed = ''https:'')
                \<and> hostname parsed \<in> allowedHostnames))"

text \<open>
  The loop of \<open>sanitizeAndFilterImages\<close>: the state is \<open>sanitizedImages\<close>,
  \<open>invalidUrlCount\<close> and \<open>nonImageCount\<close>.
\<close>

fun sanitize_loop ::
  "platform \<Rightarrow> string set \<Rightarrow> MediaPost list \<Rightarrow> MediaPost list \<times> nat \<times> nat
     \<Rightarrow> MediaPost list \<times> nat \<times> nat" where
  "sanitize_loop pf allowedHostnames [] st = st"
| "sanitize_loop pf allowedHostnames (post # rest) (sanitizedImages, invalidUrlCount, nonImageCount) =
     (if mediaType post \<noteq> Image then
        sanitize_loop pf allowedHostnames rest (sanitizedImages, invalidUrlCount, nonImageCount + 1)
      else if isValidAndAllowedUrl pf (mediaUrl post) allowedHostnames then
        sanitize_loop pf allowedHostnames rest (sanitizedImages @ [post], invalidUrlCount, nonImageCount)
      else
        sanitize_loop pf allowedHostnames rest (sanitizedImages, invalidUrlCount + 1, nonImageCount))"

definition sanitizeAndFilterImages :: "platform \<Rightarrow> MediaPost list \<Rightarrow> string set \<Rightarrow> MediaPost list"
  where
  "sanitizeAndFilterImages pf media_posts allowedHostnames =
     fst (sanitize_loop pf allowedHostnames media_posts ([], 0, 0))"

text \<open>
  \<open>getAllowedHostnames\<close>: the argument is the list of host names of the image
  configuration of the application (\<open>next.config.js\<close>).
\<close>

definition getAllowedHostnames :: "string list \<Rightarrow> string set" where
  "getAllowedHostnames configHostnames =
     {''i.redd.it'', ''preview.redd.it'', ''imgur.com'', ''files.catbox.moe''}
       \<union> set (filter (\<lambda>h. h \<noteq> []) configHostnames) \<union> {''picsum.photos''}"

section \<open>The claims in the words of the specification\<close>

text \<open>
  The two conditions of the classifier as the specification words them: rule 1 is
  "the content-hint marks it as an image, or its target URL ends in one of the four
  extensions and does not contain the gallery substring"; rule 2 is "flagged as video
  with a fallback video URL present".
\<close>

definition rule1_direct_image :: "RedditPostData \<Rightarrow> bool" where
  "rule1_direct_image postData =
     (post_hint postData = Some HintImage
      \<or> (image_ext_test (url postData) \<and> \<not> str_includes (url postData) ''gallery''))"

text \<open>
  Rule 1 with the other grouping its wording allows: the hint or the extension, and no
  gallery substring.
\<close>

definition rule1_direct_image_regrouped :: "RedditPostData \<Rightarrow> bool" where
  "rule1_direct_image_regrouped postData =
     ((post_hint postData = Some HintImage \<or> image_ext_test (url postData))
      \<and> \<not> str_includes (url postData) ''gallery'')"

definition rule2_hosted_video :: "RedditPostData \<Rightarrow> bool" where
  "rule2_hosted_video postData = (is_video postData \<and> truthy (video_fallback_url postData))"

text \<open>
  The policy of the sanitizer as the specification words it: the post is an image and
  its URL parses, with scheme http or https and a host name of the allowed set.
\<close>

definition sanitizer_policy :: "platform \<Rightarrow> string set \<Rightarrow> MediaPost \<Rightarrow> bool" where
  "sanitizer_policy pf allowed post =
     (mediaType post = Image
      \<and> (case new_URL pf (mediaUrl post) of
           None \<Rightarrow> False
         | Some parsed \<Rightarrow>
             (protocol parsed = ''http:'' \<or> protocol parsed = ''https:'')
             \<and> hostname parsed \<in> allowed))"

text \<open>
  The entries the fetcher leaves out before classifying: not of kind \<open>t3\<close>, without
  data, stickied, or a gallery.
\<close>

definition out_of_scope :: "RedditListingChild \<Rightarrow> bool" where
  "out_of_scope child =
     (RedditListingChild.kind child \<noteq> ''t3''
      \<or> (case RedditListingChild.data child of
            None \<Rightarrow> True
          | Some postData \<Rightarrow> truthy_flag (stickied postData) \<or> truthy_flag (is_gallery postData)))"

text \<open>
  The states of the token cache a process can be in, for the values of the two environment
  variables it runs with: the cache starts empty and only the two functions above write
  it. The program never writes its environment, so every call of a run reads the same
  client id and client secret; whatever else the platform provides may change from call
  to call.
\<close>

inductive reachable :: "string option \<Rightarrow> string option \<Rightarrow> token_cache \<Rightarrow> bool" where
  start: "reachable clientId clientSecret empty_cache"
| after_token:
    "reachable clientId clientSecret cache \<Longrightarrow>
     REDDIT_CLIENT_ID pf = clientId \<Longrightarrow> REDDIT_CLIENT_SECRET pf = clientSecret \<Longrightarrow>
       reachable clientId clientSecret (fst (snd (getRedditAccessToken pf cache)))"
| after_scrape:
    "reachable clientId clientSecret cache \<Longrightarrow>
     REDDIT_CLIENT_ID pf = clientId \<Longrightarrow> REDDIT_CLIENT_SECRET pf = clientSecret \<Longrightarrow>
       reachable clientId clientSecret
         (fst (snd (scrapeTrendyImages pf subredditUrl limit cache)))"

section \<open>Example inputs\<close>

text \<open>
  The answers of the URL parser of the platform on the URLs of the examples below; the
  examples use no other URL.
\<close>

definition example_URL :: "string \<Rightarrow> URL option" where
  "example_URL u =
     (if u = ''https://www.reddit.com/r/pics/'' then
        Some \<lparr>protocol = ''https:'', hostname = ''www.reddit.com'', pathname = ''/r/pics/''\<rparr>
      else if u = ''https://i.redd.it/abc.jpg'' then
        Some \<lparr>protocol = ''https:'', hostname = ''i.redd.it'', pathname = ''/abc.jpg''\<rparr>
      else if u = ''https://i.redd.it/x.png'' then
        Some \<lparr>protocol = ''https:'', hostname = ''i.redd.it'', pathname = ''/x.png''\<rparr>
      else if u = ''https://cdn.example.org/cat.GIF'' then
        Some \<lparr>protocol = ''https:'', hostname = ''cdn.example.org'', pathname = ''/cat.GIF''\<rparr>
      else if u = ''ftp://i.redd.it/old.png'' then
        Some \<lparr>protocol = ''ftp:'', hostname = ''i.redd.it'', pathname = ''/old.png''\<rparr>
      else None)"

definition example_post :: "string \<Rightarrow> string \<Rightarrow> RedditPostData" where
  "example_post t u =
     \<lparr>RedditPostData.title = t, permalink = ''/r/pics/comments/1/'', url = u, post_hint = None,
      is_video = False, is_gallery = None, stickied = None, domain = ''i.redd.it'',
      preview = None, media = None, secure_media_embed = None\<rparr>"

definition hosted_video :: Media where
  "hosted_video =
     \<lparr>reddit_video = Some \<lparr>fallback_url = Some ''https://v.redd.it/clip/DASH_720.mp4''\<rparr>,
      oembed = None\<rparr>"

definition entry :: "string \<Rightarrow> RedditPostData \<Rightarrow> RedditListingChild" where
  "entry k postData = \<lparr>RedditListingChild.kind = k, RedditListingChild.data = Some postData\<rparr>"

text \<open>
  A listing of six entries: an image, the same image again, a stickied image, a hosted
  video, an image on another host, and an entry that is not a post.
\<close>

definition example_children :: "RedditListingChild list" where
  "example_children =
     [entry ''t3'' (example_post ''first'' ''https://i.redd.it/abc.jpg''),
      entry ''t3'' (example_post ''again'' ''https://i.redd.it/abc.jpg''),
      entry ''t3'' ((example_post ''pinned'' ''https://i.redd.it/x.png'')\<lparr>stickied := Some True\<rparr>),
      entry ''t3'' ((example_post ''clip'' ''https://v.redd.it/clip'')
                      \<lparr>is_video := True, media := Some hosted_video\<rparr>),
      entry ''t3'' (example_post [] ''https://cdn.example.org/cat.GIF''),
      entry ''t1'' (example_post ''comment'' ''https://i.redd.it/x.png'')]"

definition example_listing :: RedditApiResponse where
  "example_listing =
     \<lparr>kind = ''Listing'', data = Some \<lparr>children = Some example_children\<rparr>\<rparr>"

definition example_platform :: platform where
  "example_platform =
     \<lparr>new_URL = example_URL,
      REDDIT_CLIENT_ID = Some ''my-app'',
      REDDIT_CLIENT_SECRET = Some ''s3cret'',
      date_now = 1000000,
      date_now_on_grant = 1000400,
      grant_endpoint =
        Inr (Response 200 [] (Inr \<lparr>access_token = ''tok-1'', token_type = ''bearer'',
                                   expires_in = 3600\<rparr>)),
      listing_endpoint = Inr (Response 200 [] (Inr example_listing))\<rparr>"

definition example_image :: "string \<Rightarrow> string \<Rightarrow> MediaPost" where
  "example_image t u =
     \<lparr>mediaUrl = u, mediaType = Image, title = t,
      redditUrl = ''https://www.reddit.com/r/pics/comments/1/''\<rparr>"

text \<open>An entry with the image hint, a gallery link and a hosted video.\<close>

definition gallery_hinted :: RedditPostData where
  "gallery_hinted =
     (example_post ''album'' ''https://imgur.com/gallery/abc'')
       \<lparr>post_hint := Some HintImage, is_video := True, media := Some hosted_video\<rparr>"

text \<open>An entry with the image hint, an empty target URL and a hosted video.\<close>

definition blank_hinted :: RedditPostData where
  "blank_hinted =
     (example_post ''blank'' [])
       \<lparr>post_hint := Some HintImage, is_video := True, media := Some hosted_video\<rparr>"

text \<open>
  A cache holding a token that expired at 5000, the platform whose grant stored it, and
  a process started without a client id.
\<close>

definition stale_cache :: token_cache where
  "stale_cache = \<lparr>redditAccessToken = Some ''tok-0'', tokenExpiryTime = Some 5000\<rparr>"

definition early_platform :: platform where
  "early_platform =
     example_platform
       \<lparr>date_now := 0, date_now_on_grant := 0,
        grant_endpoint :=
          Inr (Response 200 [] (Inr \<lparr>access_token = ''tok-0'', token_type = ''bearer'',
                                     expires_in = 305\<rparr>))\<rparr>"

definition no_credentials :: platform where
  "no_credentials = example_platform\<lparr>REDDIT_CLIENT_ID := None\<rparr>"

text \<open>The listing endpoint answering with a status and a body of text.\<close>

definition listing_status :: "nat \<Rightarrow> string \<Rightarrow> platform" where
  "listing_status code txt =
     example_platform\<lparr>listing_endpoint := Inr (Response code txt (Inl ''Unexpected end of JSON input''))\<rparr>"

text \<open>The request to the grant endpoint failing in the network.\<close>

definition network_down :: platform where
  "network_down = example_platform\<lparr>grant_endpoint := Inl ''fetch failed''\<rparr>"

text \<open>
  The grant endpoint answering 503, and answering 200 with a token that is not a bearer
  token.
\<close>

definition grant_503 :: platform where
  "grant_503 =
     example_platform\<lparr>grant_endpoint := Inr (Response 503 ''busy'' (Inl ''Unexpected token''))\<rparr>"

definition grant_not_bearer :: platform where
  "grant_not_bearer =
     example_platform
       \<lparr>grant_endpoint :=
          Inr (Response 200 [] (Inr \<lparr>access_token = ''tok-2'', token_type = ''mac'',
                                     expires_in = 3600\<rparr>))\<rparr>"

text \<open>The grant endpoint answering 401.\<close>

definition grant_401 :: platform where
  "grant_401 =
     example_platform\<lparr>grant_endpoint := Inr (Response 401 ''unauthorized'' (Inr \<lparr>access_token = [], token_type = [], expires_in = 0\<rparr>))\<rparr>"

section \<open>The string tests and the library\<close>

lemma startsWith_prefix: "startsWith s p \<longleftrightarrow> prefix p s"
  by (induction s p rule: startsWith.induct) auto

lemma endsWith_suffix: "endsWith s p \<longleftrightarrow> suffix p s"
  by (simp add: endsWith_def startsWith_prefix suffix_to_prefix)

lemma str_includes_sublist: "str_includes s p \<longleftrightarrow> sublist p s"
proof (induction s)
  case Nil
  then show ?case by simp
next
  case (Cons c cs)
  then show ?case by (simp add: startsWith_prefix sublist_Cons_right)
qed

lemma image_ext_test_iff:
  "image_ext_test u \<longleftrightarrow>
     (\<exists>ext \<in> {''.jpg'', ''.jpeg'', ''.png'', ''.gif''}. suffix ext (toLowerCase u))"
  by (simp add: image_ext_test_def Let_def endsWith_suffix)


section \<open>Invariants of the loop\<close>

lemma list_ex_mediaUrl: "list_ex (\<lambda>p. mediaUrl p = u) ps \<longleftrightarrow> u \<in> set (map mediaUrl ps)"
  by (auto simp: list_ex_iff)

lemma forEach_body_cases:
  "forEach_body child (ps, n) = (ps, n + 1)
   \<or> (\<exists>postData u. RedditListingChild.data child = Some postData
         \<and> RedditListingChild.kind child = ''t3''
         \<and> \<not> truthy_flag (stickied postData) \<and> \<not> truthy_flag (is_gallery postData)
         \<and> foundMedia postData = Some (u, Image) \<and> u \<noteq> []
         \<and> u \<notin> set (map mediaUrl ps)
         \<and> forEach_body child (ps, n) =
             (ps @ [\<lparr>mediaUrl = u, mediaType = Image,
                     title = untitled (RedditPostData.title postData),
                     redditUrl = ''https://www.reddit.com'' @ permalink postData\<rparr>], n))"
  by (auto simp: forEach_body_def list_ex_mediaUrl split: option.splits)

lemma forEach_body_distinct:
  assumes "distinct (map mediaUrl (fst st))"
  shows "distinct (map mediaUrl (fst (forEach_body child st)))"
proof (cases st)
  case (Pair ps n)
  with assms forEach_body_cases [of child ps n] show ?thesis by auto
qed

lemma forEach_children_distinct:
  "distinct (map mediaUrl (fst st)) \<Longrightarrow> distinct (map mediaUrl (fst (forEach_children cs st)))"
  by (induction cs arbitrary: st) (simp_all add: forEach_body_distinct)

lemma forEach_body_images:
  assumes "\<forall>p \<in> set (fst st). mediaType p = Image"
  shows "\<forall>p \<in> set (fst (forEach_body child st)). mediaType p = Image"
proof (cases st)
  case (Pair ps n)
  with assms forEach_body_cases [of child ps n] show ?thesis by auto
qed

lemma forEach_children_images:
  "\<forall>p \<in> set (fst st). mediaType p = Image
   \<Longrightarrow> \<forall>p \<in> set (fst (forEach_children cs st)). mediaType p = Image"
proof (induction cs arbitrary: st)
  case Nil
  then show ?case by simp
next
  case (Cons c cs)
  from Cons.IH [OF forEach_body_images [OF Cons.prems]] show ?case by simp
qed

lemma listing_try_success:
  "listing_try pf name cache = Inr (posts, cache') \<Longrightarrow>
     cache' = cache \<and> (\<exists>cs. posts = fst (forEach_children cs ([], 0)))"
  by (auto simp: listing_try_def Let_def split: sum.splits if_splits option.splits)

lemma scrapeTrendyImages_success:
  "fst (scrapeTrendyImages pf subredditUrl limit cache) = Inr posts \<Longrightarrow>
     \<exists>cs. posts = fst (forEach_children cs ([], 0))"
  by (auto simp: scrapeTrendyImages_def Let_def split: option.splits if_splits prod.splits sum.splits
           dest: listing_try_success)

lemma forEach_body_out_of_scope:
  "out_of_scope child \<Longrightarrow> forEach_body child (ps, n) = (ps, n + 1)"
  by (auto simp: forEach_body_def out_of_scope_def split: option.splits)

lemma forEach_body_count_indep:
  "fst (forEach_body child (ps, n)) = fst (forEach_body child (ps, m))"
  by (auto simp: forEach_body_def split: option.splits)

lemma forEach_body_fst_eq:
  "fst st = fst st' \<Longrightarrow> fst (forEach_body child st) = fst (forEach_body child st')"
  using forEach_body_count_indep by (cases st; cases st') auto

lemma forEach_children_fst_eq:
  "fst st = fst st' \<Longrightarrow> fst (forEach_children cs st) = fst (forEach_children cs st')"
proof (induction cs arbitrary: st st')
  case Nil
  then show ?case by simp
next
  case (Cons c cs)
  from Cons.IH [OF forEach_body_fst_eq [OF Cons.prems]] show ?case by simp
qed

lemma forEach_children_skip:
  "fst (forEach_children cs st) = fst (forEach_children (filter (\<lambda>c. \<not> out_of_scope c) cs) st)"
proof (induction cs arbitrary: st)
  case Nil
  then show ?case by simp
next
  case (Cons c cs)
  show ?case
  proof (cases "out_of_scope c")
    case True
    obtain ps n where st: "st = (ps, n)" by (cases st)
    have "fst (forEach_children cs (forEach_body c st)) = fst (forEach_children cs st)"
      by (rule forEach_children_fst_eq) (simp add: st forEach_body_out_of_scope [OF True])
    with True Cons.IH show ?thesis by simp
  next
    case False
    with Cons.IH show ?thesis by simp
  qed
qed


section \<open>The sanitizer as a filter\<close>

lemma sanitize_loop_fst:
  "fst (sanitize_loop pf allowed ms (acc, i, n)) =
     acc @ filter (\<lambda>p. mediaType p = Image \<and> isValidAndAllowedUrl pf (mediaUrl p) allowed) ms"
  by (induction ms arbitrary: acc i n) simp_all

lemma sanitizeAndFilterImages_filter:
  "sanitizeAndFilterImages pf ms allowed =
     filter (\<lambda>p. mediaType p = Image \<and> isValidAndAllowedUrl pf (mediaUrl p) allowed) ms"
  by (simp add: sanitizeAndFilterImages_def sanitize_loop_fst)


lemma isValidAndAllowedUrl_policy:
  "new_URL pf [] = None \<Longrightarrow>
     (mediaType p = Image \<and> isValidAndAllowedUrl pf (mediaUrl p) allowed) = sanitizer_policy pf allowed p"
  by (auto simp: isValidAndAllowedUrl_def sanitizer_policy_def split: option.splits)


section \<open>The token cache\<close>

lemma string_of_nat_401: "string_of_nat 401 = ''401''"
  by (simp add: string_of_nat.simps digit_char_def)

lemma cleared_is_empty:
  "(cache :: token_cache)\<lparr>redditAccessToken := None, tokenExpiryTime := None\<rparr> = empty_cache"
  by (simp add: empty_cache_def)

lemma getRedditAccessToken_hit:
  "cache_hit (date_now pf) cache \<Longrightarrow>
     getRedditAccessToken pf cache = (Inr (str_of (redditAccessToken cache)), cache, [])"
  by (simp add: getRedditAccessToken_def)

lemma getRedditAccessToken_no_credentials:
  "\<not> cache_hit (date_now pf) cache \<Longrightarrow>
   \<not> (truthy (REDDIT_CLIENT_ID pf) \<and> truthy (REDDIT_CLIENT_SECRET pf)) \<Longrightarrow>
     getRedditAccessToken pf cache =
       (Inl (Error ''Reddit API credentials are missing. Please configure them in your .env file.''),
        cache, [])"
  by (auto simp: getRedditAccessToken_def)

lemma getRedditAccessToken_requests:
  "\<not> cache_hit (date_now pf) cache \<Longrightarrow>
   truthy (REDDIT_CLIENT_ID pf) \<Longrightarrow> truthy (REDDIT_CLIENT_SECRET pf) \<Longrightarrow>
     snd (snd (getRedditAccessToken pf cache)) = [tokenUrl]"
  by (simp add: getRedditAccessToken_def Let_def split: sum.splits prod.splits)

lemma getRedditAccessToken_failure_clears:
  "\<not> cache_hit (date_now pf) cache \<Longrightarrow>
   truthy (REDDIT_CLIENT_ID pf) \<Longrightarrow> truthy (REDDIT_CLIENT_SECRET pf) \<Longrightarrow>
   fst (getRedditAccessToken pf cache) = Inl err \<Longrightarrow>
     fst (snd (getRedditAccessToken pf cache)) = empty_cache"
  by (auto simp: getRedditAccessToken_def Let_def cleared_is_empty split: sum.splits prod.splits if_splits)

lemma grant_try_token_nonempty:
  "grant_try pf cache = Inr (token, cache') \<Longrightarrow>
     token \<noteq> [] \<and> redditAccessToken cache' = Some token"
  by (auto simp: grant_try_def split: sum.splits if_splits)

lemma getRedditAccessToken_cache:
  "fst (snd (getRedditAccessToken pf cache)) = cache
   \<or> fst (snd (getRedditAccessToken pf cache)) = empty_cache
   \<or> (truthy (REDDIT_CLIENT_ID pf) \<and> truthy (REDDIT_CLIENT_SECRET pf)
       \<and> (\<exists>token. token \<noteq> []
             \<and> redditAccessToken (fst (snd (getRedditAccessToken pf cache))) = Some token))"
  by (auto simp: getRedditAccessToken_def Let_def cleared_is_empty
           split: sum.splits prod.splits if_splits
           dest: grant_try_token_nonempty)

lemma listing_try_cache:
  "listing_try pf name cache = Inl (err, cache') \<Longrightarrow> cache' = cache \<or> cache' = empty_cache"
  "listing_try pf name cache = Inr (posts, cache') \<Longrightarrow> cache' = cache"
  by (auto simp: listing_try_def Let_def cleared_is_empty split: sum.splits if_splits option.splits)

lemma scrapeTrendyImages_cache:
  "fst (snd (scrapeTrendyImages pf u l cache)) \<in>
     {cache, fst (snd (getRedditAccessToken pf cache)), empty_cache}"
  by (auto simp: scrapeTrendyImages_def Let_def
           split: option.splits if_splits prod.splits sum.splits
           dest: listing_try_cache)

text \<open>
  A reachable cache is empty, or it holds a non-empty token and the process has both
  credentials: a token is stored only after the test of the credentials has passed.
\<close>

lemma reachable_cache:
  "reachable clientId clientSecret cache \<Longrightarrow>
     cache = empty_cache
     \<or> (truthy clientId \<and> truthy clientSecret
         \<and> (\<exists>token. token \<noteq> [] \<and> redditAccessToken cache = Some token))"
proof (induction rule: reachable.induct)
  case (start clientId clientSecret)
  show ?case by simp
next
  case (after_token clientId clientSecret cache pf)
  with getRedditAccessToken_cache [of pf cache] show ?case by auto
next
  case (after_scrape clientId clientSecret cache pf subredditUrl limit)
  from scrapeTrendyImages_cache [of pf subredditUrl limit cache]
  consider "fst (snd (scrapeTrendyImages pf subredditUrl limit cache)) = cache"
    | "fst (snd (scrapeTrendyImages pf subredditUrl limit cache))
         = fst (snd (getRedditAccessToken pf cache))"
    | "fst (snd (scrapeTrendyImages pf subredditUrl limit cache)) = empty_cache"
    by auto
  then show ?case
  proof cases
    case 1
    with after_scrape.IH show ?thesis by simp
  next
    case 2
    with after_scrape getRedditAccessToken_cache [of pf cache] show ?thesis by auto
  next
    case 3
    then show ?thesis by simp
  qed
qed

text \<open>What makes a call fail once the grant request is sent.\<close>

lemma grant_try_failure_paths:
  "(\<exists>err cache'. grant_try pf cache = Inl (err, cache')) \<longleftrightarrow>
     (case grant_endpoint pf of
        Inl m \<Rightarrow> True
      | Inr response \<Rightarrow>
          \<not> ok response
          \<or> (case body_json response of
                Inl m \<Rightarrow> True
              | Inr tokenData \<Rightarrow>
                  token_type tokenData \<noteq> ''bearer'' \<or> access_token tokenData = []))"
  by (auto simp: grant_try_def split: sum.splits)


section \<open>The examples, evaluated\<close>

lemma example_name:
  "extractSubredditName example_platform ''https://www.reddit.com/r/pics/'' = Some ''pics''"
  by (simp add: extractSubredditName_def example_platform_def example_URL_def toLowerCase_def)

lemma example_token:
  "getRedditAccessToken example_platform empty_cache =
     (Inr ''tok-1'', \<lparr>redditAccessToken = Some ''tok-1'', tokenExpiryTime = Some 4300400\<rparr>, [tokenUrl])"
  by (simp add: getRedditAccessToken_def cache_hit_def empty_cache_def truthy_def
        example_platform_def grant_try_def ok_def)

lemma example_found_1: "foundMedia (example_post t ''https://i.redd.it/abc.jpg'') = Some (''https://i.redd.it/abc.jpg'', Image)"
  by (simp add: foundMedia_def example_post_def image_ext_test_def toLowerCase_def endsWith_def)

lemma example_found_2: "foundMedia (example_post t ''https://cdn.example.org/cat.GIF'') = Some (''https://cdn.example.org/cat.GIF'', Image)"
  by (simp add: foundMedia_def example_post_def image_ext_test_def toLowerCase_def endsWith_def)

lemma example_found_3:
  "foundMedia ((example_post t ''https://v.redd.it/clip'')\<lparr>is_video := True, media := Some hosted_video\<rparr>)
     = Some (''https://v.redd.it/clip/DASH_720.mp4'', Video)"
  by (simp add: foundMedia_def example_post_def image_ext_test_def toLowerCase_def endsWith_def
        video_fallback_url_def hosted_video_def truthy_def str_of_def)

lemma example_loop:
  "forEach_children example_children ([], 0) =
     ([example_image ''first'' ''https://i.redd.it/abc.jpg'',
       example_image ''Untitled Post'' ''https://cdn.example.org/cat.GIF''], 4)"
  by (simp add: example_children_def entry_def forEach_body_def example_found_1 example_found_2
        example_found_3 truthy_flag_def example_image_def untitled_def)
     (simp add: example_post_def)


lemma example_listing_try:
  "listing_try example_platform ''pics'' cache =
     Inr ([example_image ''first'' ''https://i.redd.it/abc.jpg'',
           example_image ''Untitled Post'' ''https://cdn.example.org/cat.GIF''], cache)"
  by (simp add: listing_try_def example_platform_def ok_def example_listing_def example_loop)

lemma example_scrape:
  "scrapeTrendyImages example_platform ''https://www.reddit.com/r/pics/'' 25 empty_cache =
     (Inr [example_image ''first'' ''https://i.redd.it/abc.jpg'',
           example_image ''Untitled Post'' ''https://cdn.example.org/cat.GIF''],
      \<lparr>redditAccessToken = Some ''tok-1'', tokenExpiryTime = Some 4300400\<rparr>,
      [tokenUrl, apiUrl ''pics'' 25])"
  by (simp add: scrapeTrendyImages_def example_name example_token example_listing_try)

lemma listing_status_name:
  "extractSubredditName (listing_status code txt) ''https://www.reddit.com/r/pics/'' = Some ''pics''"
  using example_name by (simp add: extractSubredditName_def listing_status_def)

lemma listing_status_token:
  "getRedditAccessToken (listing_status code txt) empty_cache =
     (Inr ''tok-1'', \<lparr>redditAccessToken = Some ''tok-1'', tokenExpiryTime = Some 4300400\<rparr>, [tokenUrl])"
  by (simp add: getRedditAccessToken_def cache_hit_def empty_cache_def truthy_def
        example_platform_def grant_try_def ok_def listing_status_def)

lemma not_rethrown_429:
  "\<not> rethrown ''Rate limited by Reddit (429 Too Many Requests). Please wait and try again later.''"
  by (simp add: rethrown_def)

lemma not_rethrown_403:
  "\<not> rethrown ''Access denied (403 Forbidden) when fetching r/pics. Possible reasons: Invalid API key permissions, blocked User-Agent, IP restrictions, or subreddit access rules.''"
  by (simp add: rethrown_def)

lemma listing_try_429:
  "listing_try (listing_status 429 txt) name cache =
     Inl (Error ''Rate limited by Reddit (429 Too Many Requests). Please wait and try again later.'', cache)"
  by (simp add: listing_try_def listing_status_def example_platform_def ok_def)

lemma listing_try_403:
  "listing_try (listing_status 403 txt) ''pics'' cache =
     Inl (Error ''Access denied (403 Forbidden) when fetching r/pics. Possible reasons: Invalid API key permissions, blocked User-Agent, IP restrictions, or subreddit access rules.'', cache)"
  by (simp add: listing_try_def listing_status_def example_platform_def ok_def)

lemma scrape_429:
  "fst (scrapeTrendyImages (listing_status 429 ''slow down'') ''https://www.reddit.com/r/pics/'' 25 empty_cache)
     = Inl (Error ''An unexpected error occurred while processing data from Reddit API for r/pics.'')"
  by (simp add: scrapeTrendyImages_def listing_status_name listing_status_token listing_try_429
        not_rethrown_429)

lemma scrape_403:
  "fst (scrapeTrendyImages (listing_status 403 ''forbidden'') ''https://www.reddit.com/r/pics/'' 25 empty_cache)
     = Inl (Error ''An unexpected error occurred while processing data from Reddit API for r/pics.'')"
  by (simp add: scrapeTrendyImages_def listing_status_name listing_status_token listing_try_403
        not_rethrown_403)

lemma example_found_4:
  "foundMedia ((example_post t ''https://i.redd.it/abc.jpg'')\<lparr>is_video := True, media := Some hosted_video\<rparr>)
     = Some (''https://i.redd.it/abc.jpg'', Image)"
  by (simp add: foundMedia_def example_post_def image_ext_test_def toLowerCase_def endsWith_def)

lemma gallery_hinted_rules:
  "rule1_direct_image gallery_hinted \<and> rule2_hosted_video gallery_hinted"
  by (simp add: rule1_direct_image_def rule2_hosted_video_def gallery_hinted_def example_post_def
        video_fallback_url_def hosted_video_def truthy_def)

lemma gallery_hinted_found: "foundMedia gallery_hinted = None"
  by (simp add: foundMedia_def gallery_hinted_def example_post_def)

lemma blank_hinted_rules:
  "rule1_direct_image blank_hinted \<and> rule1_direct_image_regrouped blank_hinted
   \<and> rule2_hosted_video blank_hinted"
  by (simp add: rule1_direct_image_def rule1_direct_image_regrouped_def rule2_hosted_video_def
        blank_hinted_def example_post_def video_fallback_url_def hosted_video_def truthy_def)

lemma blank_hinted_found: "foundMedia blank_hinted = None"
  by (simp add: foundMedia_def blank_hinted_def example_post_def)

lemma example_URL_empty: "new_URL example_platform [] = None"
  by (simp add: example_platform_def example_URL_def)

lemma string_of_nat_500: "string_of_nat 500 = ''500''"
  by (simp add: string_of_nat.simps digit_char_def)

lemma listing_try_500:
  "listing_try (listing_status 500 ''oops'') name cache =
     Inl (Error ''Failed to fetch data from Reddit API. Status: 500. Details: oops...'', cache)"
  by (simp add: listing_try_def listing_status_def example_platform_def ok_def string_of_nat_500)

lemma not_rethrown_500:
  "\<not> rethrown ''Failed to fetch data from Reddit API. Status: 500. Details: oops...''"
  by (simp add: rethrown_def)

lemma scrape_500:
  "fst (scrapeTrendyImages (listing_status 500 ''oops'') ''https://www.reddit.com/r/pics/'' 25 empty_cache)
     = Inl (Error ''An unexpected error occurred while processing data from Reddit API for r/pics.'')"
  by (simp add: scrapeTrendyImages_def listing_status_name listing_status_token listing_try_500
        not_rethrown_500)

lemma listing_try_404:
  "listing_try (listing_status 404 txt) ''pics'' cache =
     Inl (Error ''Subreddit 'r/pics' not found or is private (404).'', cache)"
  by (simp add: listing_try_def listing_status_def example_platform_def ok_def)

lemma rethrown_404:
  "rethrown ''Subreddit 'r/pics' not found or is private (404).''"
  by (simp add: rethrown_def)

lemma scrape_404:
  "fst (scrapeTrendyImages (listing_status 404 ''gone'') ''https://www.reddit.com/r/pics/'' 25 empty_cache)
     = Inl (Error ''Subreddit 'r/pics' not found or is private (404).'')"
  by (simp add: scrapeTrendyImages_def listing_status_name listing_status_token listing_try_404
        rethrown_404)

lemma listing_try_401:
  "listing_try (listing_status 401 txt) name cache =
     Inl (Error ''Reddit API authentication failed (401 Unauthorized). Access token might be expired or invalid. Please ensure credentials in .env are correct.'',
          empty_cache)"
  by (simp add: listing_try_def listing_status_def example_platform_def ok_def empty_cache_def)

lemma rethrown_401:
  "rethrown ''Reddit API authentication failed (401 Unauthorized). Access token might be expired or invalid. Please ensure credentials in .env are correct.''"
  by (simp add: rethrown_def)

lemma scrape_401:
  "scrapeTrendyImages (listing_status 401 ''expired'') ''https://www.reddit.com/r/pics/'' 25 empty_cache
     = (Inl (Error ''Reddit API authentication failed (401 Unauthorized). Access token might be expired or invalid. Please ensure credentials in .env are correct.''),
        empty_cache, [tokenUrl, apiUrl ''pics'' 25])"
  by (simp add: scrapeTrendyImages_def listing_status_name listing_status_token listing_try_401
        rethrown_401)

lemma early_token:
  "getRedditAccessToken early_platform empty_cache = (Inr ''tok-0'', stale_cache, [tokenUrl])"
  by (simp add: getRedditAccessToken_def cache_hit_def empty_cache_def truthy_def
        early_platform_def example_platform_def grant_try_def ok_def stale_cache_def)

lemma example_credentials:
  "REDDIT_CLIENT_ID example_platform = Some ''my-app''"
  "REDDIT_CLIENT_SECRET example_platform = Some ''s3cret''"
  "REDDIT_CLIENT_ID early_platform = Some ''my-app''"
  "REDDIT_CLIENT_SECRET early_platform = Some ''s3cret''"
  "REDDIT_CLIENT_ID network_down = Some ''my-app''"
  "REDDIT_CLIENT_SECRET network_down = Some ''s3cret''"
  "REDDIT_CLIENT_ID grant_401 = Some ''my-app''"
  "REDDIT_CLIENT_SECRET grant_401 = Some ''s3cret''"
  "REDDIT_CLIENT_ID grant_503 = Some ''my-app''"
  "REDDIT_CLIENT_SECRET grant_503 = Some ''s3cret''"
  "REDDIT_CLIENT_ID grant_not_bearer = Some ''my-app''"
  "REDDIT_CLIENT_SECRET grant_not_bearer = Some ''s3cret''"
  "REDDIT_CLIENT_ID no_credentials = None"
  "REDDIT_CLIENT_SECRET no_credentials = Some ''s3cret''"
  by (simp_all add: example_platform_def early_platform_def network_down_def grant_401_def
        grant_503_def grant_not_bearer_def no_credentials_def)

lemma reachable_stale_cache: "reachable (Some ''my-app'') (Some ''s3cret'') stale_cache"
  using reachable.after_token
          [OF reachable.start, of early_platform "Some ''my-app''" "Some ''s3cret''"]
  by (simp add: early_token example_credentials)

lemma string_of_nat_503: "string_of_nat 503 = ''503''"
  by (simp add: string_of_nat.simps digit_char_def)

lemma network_down_call:
  "getRedditAccessToken network_down stale_cache =
     (Inl (Error ''Could not connect to Reddit API to get access token.''), empty_cache, [tokenUrl])"
  by (simp add: getRedditAccessToken_def cache_hit_def stale_cache_def network_down_def
        example_platform_def truthy_def grant_try_def empty_cache_def)

lemma grant_401_call:
  "getRedditAccessToken grant_401 stale_cache =
     (Inl (Error ''Failed to authenticate with Reddit API. Status: 401 (Unauthorized). Please verify your REDDIT_CLIENT_ID and REDDIT_CLIENT_SECRET.''),
      empty_cache, [tokenUrl])"
  by (simp add: getRedditAccessToken_def cache_hit_def stale_cache_def grant_401_def
        example_platform_def truthy_def grant_try_def ok_def string_of_nat_401 empty_cache_def)

lemma grant_503_call:
  "getRedditAccessToken grant_503 stale_cache =
     (Inl (Error ''Failed to authenticate with Reddit API. Status: 503''), empty_cache, [tokenUrl])"
  by (simp add: getRedditAccessToken_def cache_hit_def stale_cache_def grant_503_def
        example_platform_def truthy_def grant_try_def ok_def string_of_nat_503 empty_cache_def)

lemma grant_not_bearer_call:
  "getRedditAccessToken grant_not_bearer stale_cache =
     (Inl (Error ''Could not connect to Reddit API to get access token.''), empty_cache, [tokenUrl])"
  by (simp add: getRedditAccessToken_def cache_hit_def stale_cache_def grant_not_bearer_def
        example_platform_def truthy_def grant_try_def ok_def empty_cache_def)

lemma no_credentials_call:
  "getRedditAccessToken no_credentials empty_cache =
     (Inl (Error ''Reddit API credentials are missing. Please configure them in your .env file.''),
      empty_cache, [])"
  by (simp add: getRedditAccessToken_def cache_hit_def empty_cache_def no_credentials_def
        example_platform_def truthy_def)

section \<open>Listing fetcher: the returned list\<close>

text \<open>
  C1. Whenever \<open>scrapeTrendyImages\<close> returns a list, no two of its elements have the same
  \<open>mediaUrl\<close>; and an entry whose classified URL is already the \<open>mediaUrl\<close> of an
  element appended so far adds nothing to the list and is counted as skipped. This holds
  for every URL and every limit, so for the valid URLs and the limits 1 to 100 too.
\<close>

theorem scrapeTrendyImages_distinct_mediaUrl:
  "(fst (scrapeTrendyImages pf subredditUrl limit cache) = Inr posts
      \<longrightarrow> distinct (map mediaUrl posts))
   \<and> (RedditListingChild.data child = Some postData \<and> foundMedia postData = Some (u, t)
        \<and> u \<in> set (map mediaUrl mediaPosts)
      \<longrightarrow> forEach_body child (mediaPosts, n) = (mediaPosts, n + 1))"
proof (intro conjI impI)
  assume "fst (scrapeTrendyImages pf subredditUrl limit cache) = Inr posts"
  then obtain cs where "posts = fst (forEach_children cs ([], 0))"
    using scrapeTrendyImages_success by blast
  then show "distinct (map mediaUrl posts)"
    using forEach_children_distinct [of "([], 0)" cs] by simp
next
  assume "RedditListingChild.data child = Some postData \<and> foundMedia postData = Some (u, t)
          \<and> u \<in> set (map mediaUrl mediaPosts)"
  then show "forEach_body child (mediaPosts, n) = (mediaPosts, n + 1)"
    using forEach_body_cases [of child mediaPosts n] by auto
qed

text \<open>
  The example listing holds the same image twice: the list returned has it once, and the
  second entry is skipped when the loop reaches it.
\<close>

theorem scrapeTrendyImages_distinct_mediaUrl_witness:
  "fst (scrapeTrendyImages example_platform ''https://www.reddit.com/r/pics/'' 25 empty_cache)
     = Inr [example_image ''first'' ''https://i.redd.it/abc.jpg'',
            example_image ''Untitled Post'' ''https://cdn.example.org/cat.GIF'']
   \<and> distinct (map mediaUrl [example_image ''first'' ''https://i.redd.it/abc.jpg'',
                              example_image ''Untitled Post'' ''https://cdn.example.org/cat.GIF''])
   \<and> foundMedia (example_post ''again'' ''https://i.redd.it/abc.jpg'')
       = Some (''https://i.redd.it/abc.jpg'', Image)
   \<and> ''https://i.redd.it/abc.jpg''
       \<in> set (map mediaUrl [example_image ''first'' ''https://i.redd.it/abc.jpg''])
   \<and> forEach_body (entry ''t3'' (example_post ''again'' ''https://i.redd.it/abc.jpg''))
        ([example_image ''first'' ''https://i.redd.it/abc.jpg''], 0)
       = ([example_image ''first'' ''https://i.redd.it/abc.jpg''], 1)"
proof -
  have run: "fst (scrapeTrendyImages example_platform ''https://www.reddit.com/r/pics/'' 25 empty_cache)
     = Inr [example_image ''first'' ''https://i.redd.it/abc.jpg'',
            example_image ''Untitled Post'' ''https://cdn.example.org/cat.GIF'']"
    by (simp add: example_scrape)
  have dat: "RedditListingChild.data (entry ''t3'' (example_post ''again'' ''https://i.redd.it/abc.jpg''))
     = Some (example_post ''again'' ''https://i.redd.it/abc.jpg'')"
    by (simp add: entry_def)
  have mem: "''https://i.redd.it/abc.jpg''
       \<in> set (map mediaUrl [example_image ''first'' ''https://i.redd.it/abc.jpg''])"
    by (simp add: example_image_def)
  note inst = scrapeTrendyImages_distinct_mediaUrl
    [of example_platform "''https://www.reddit.com/r/pics/''" 25 empty_cache
        "[example_image ''first'' ''https://i.redd.it/abc.jpg'',
          example_image ''Untitled Post'' ''https://cdn.example.org/cat.GIF'']"
        "entry ''t3'' (example_post ''again'' ''https://i.redd.it/abc.jpg'')"
        "example_post ''again'' ''https://i.redd.it/abc.jpg''"
        "''https://i.redd.it/abc.jpg''" Image
        "[example_image ''first'' ''https://i.redd.it/abc.jpg'']" 0]
  from inst run dat mem example_found_1 [of "''again''"] show ?thesis by simp
qed

text \<open>
  C2. Whenever \<open>scrapeTrendyImages\<close> returns a list, every element of it has
  \<open>mediaType\<close> image: an entry classified as video or redgifs adds nothing to the list
  inside the loop of the fetcher, so the comparison of URLs only ever sees images.
\<close>

theorem scrapeTrendyImages_only_images:
  "(fst (scrapeTrendyImages pf subredditUrl limit cache) = Inr posts
      \<longrightarrow> (\<forall>p \<in> set posts. mediaType p = Image))
   \<and> (RedditListingChild.data child = Some postData \<and> foundMedia postData = Some (u, t)
        \<and> t \<noteq> Image
      \<longrightarrow> forEach_body child (mediaPosts, n) = (mediaPosts, n + 1))"
proof (intro conjI impI)
  assume "fst (scrapeTrendyImages pf subredditUrl limit cache) = Inr posts"
  then obtain cs where "posts = fst (forEach_children cs ([], 0))"
    using scrapeTrendyImages_success by blast
  then show "\<forall>p \<in> set posts. mediaType p = Image"
    using forEach_children_images [of "([], 0)" cs] by simp
next
  assume "RedditListingChild.data child = Some postData \<and> foundMedia postData = Some (u, t)
          \<and> t \<noteq> Image"
  then show "forEach_body child (mediaPosts, n) = (mediaPosts, n + 1)"
    using forEach_body_cases [of child mediaPosts n] by auto
qed

text \<open>
  The example listing holds a hosted video: it is classified as video, skipped by the
  loop, and absent from the list returned.
\<close>

theorem scrapeTrendyImages_only_images_witness:
  "fst (scrapeTrendyImages example_platform ''https://www.reddit.com/r/pics/'' 25 empty_cache)
     = Inr [example_image ''first'' ''https://i.redd.it/abc.jpg'',
            example_image ''Untitled Post'' ''https://cdn.example.org/cat.GIF'']
   \<and> map mediaType [example_image ''first'' ''https://i.redd.it/abc.jpg'',
                      example_image ''Untitled Post'' ''https://cdn.example.org/cat.GIF'']
       = [Image, Image]
   \<and> foundMedia ((example_post ''clip'' ''https://v.redd.it/clip'')
                    \<lparr>is_video := True, media := Some hosted_video\<rparr>)
       = Some (''https://v.redd.it/clip/DASH_720.mp4'', Video)
   \<and> forEach_body (entry ''t3'' ((example_post ''clip'' ''https://v.redd.it/clip'')
                                    \<lparr>is_video := True, media := Some hosted_video\<rparr>))
        ([example_image ''first'' ''https://i.redd.it/abc.jpg''], 2)
       = ([example_image ''first'' ''https://i.redd.it/abc.jpg''], 3)"
proof -
  have run: "fst (scrapeTrendyImages example_platform ''https://www.reddit.com/r/pics/'' 25 empty_cache)
     = Inr [example_image ''first'' ''https://i.redd.it/abc.jpg'',
            example_image ''Untitled Post'' ''https://cdn.example.org/cat.GIF'']"
    by (simp add: example_scrape)
  have dat: "RedditListingChild.data
       (entry ''t3'' ((example_post ''clip'' ''https://v.redd.it/clip'')
                        \<lparr>is_video := True, media := Some hosted_video\<rparr>))
     = Some ((example_post ''clip'' ''https://v.redd.it/clip'')
               \<lparr>is_video := True, media := Some hosted_video\<rparr>)"
    by (simp add: entry_def)
  note inst = scrapeTrendyImages_only_images
    [of example_platform "''https://www.reddit.com/r/pics/''" 25 empty_cache
        "[example_image ''first'' ''https://i.redd.it/abc.jpg'',
          example_image ''Untitled Post'' ''https://cdn.example.org/cat.GIF'']"
        "entry ''t3'' ((example_post ''clip'' ''https://v.redd.it/clip'')
                         \<lparr>is_video := True, media := Some hosted_video\<rparr>)"
        "(example_post ''clip'' ''https://v.redd.it/clip'')
           \<lparr>is_video := True, media := Some hosted_video\<rparr>"
        "''https://v.redd.it/clip/DASH_720.mp4''" Video
        "[example_image ''first'' ''https://i.redd.it/abc.jpg'']" 2]
  from inst run dat example_found_3 [of "''clip''"] show ?thesis by simp
qed

section \<open>Feed classifier: the first rule\<close>

text \<open>
  C3, as the specification states it, fails: the entry \<open>gallery_hinted\<close> has the image
  hint, so it satisfies rule 1 as worded, and it satisfies rule 2, yet its URL contains
  \<open>gallery\<close> and the classifier returns nothing for it. The entry \<open>blank_hinted\<close>, with
  the image hint and an empty URL, satisfies rule 1 under either grouping of its "or" and
  "and", and rule 2, and gets nothing as well.
\<close>

theorem classifier_precedence_counterexample:
  "rule1_direct_image gallery_hinted \<and> rule2_hosted_video gallery_hinted
   \<and> foundMedia gallery_hinted \<noteq> Some (url gallery_hinted, Image)
   \<and> rule1_direct_image blank_hinted \<and> rule1_direct_image_regrouped blank_hinted
   \<and> rule2_hosted_video blank_hinted
   \<and> foundMedia blank_hinted \<noteq> Some (url blank_hinted, Image)"
  using gallery_hinted_rules blank_hinted_rules
  by (simp add: gallery_hinted_found blank_hinted_found)

text \<open>
  C3, amended. For every entry whose content hint is image or whose target URL ends in
  \<open>.jpg\<close>, \<open>.jpeg\<close>, \<open>.png\<close> or \<open>.gif\<close> (in any case), no later rule is consulted,
  whether or not the entry is a hosted video: the classifier returns type image with the
  target URL when that URL is non-empty and does not contain \<open>gallery\<close>, and nothing
  otherwise.
\<close>

theorem classifier_rule1_priority:
  assumes "post_hint postData = Some HintImage \<or> image_ext_test (url postData)"
  shows "foundMedia postData =
           (if url postData \<noteq> [] \<and> \<not> str_includes (url postData) ''gallery''
            then Some (url postData, Image) else None)"
  using assms by (simp add: foundMedia_def)

text \<open>
  An entry with an image extension that is also a hosted video is an image; the entry of
  the counterexample gets nothing.
\<close>

theorem classifier_rule1_priority_witness:
  "image_ext_test ''https://i.redd.it/abc.jpg''
   \<and> rule2_hosted_video ((example_post ''both'' ''https://i.redd.it/abc.jpg'')
                            \<lparr>is_video := True, media := Some hosted_video\<rparr>)
   \<and> foundMedia ((example_post ''both'' ''https://i.redd.it/abc.jpg'')
                    \<lparr>is_video := True, media := Some hosted_video\<rparr>)
       = Some (''https://i.redd.it/abc.jpg'', Image)
   \<and> post_hint gallery_hinted = Some HintImage \<and> foundMedia gallery_hinted = None"
proof -
  have ext: "image_ext_test ''https://i.redd.it/abc.jpg''"
    by (simp add: image_ext_test_def toLowerCase_def endsWith_def)
  have r2: "rule2_hosted_video ((example_post ''both'' ''https://i.redd.it/abc.jpg'')
                            \<lparr>is_video := True, media := Some hosted_video\<rparr>)"
    by (simp add: rule2_hosted_video_def video_fallback_url_def hosted_video_def truthy_def)
  have hint: "post_hint gallery_hinted = Some HintImage"
    by (simp add: gallery_hinted_def)
  have u1: "url ((example_post ''both'' ''https://i.redd.it/abc.jpg'')
                            \<lparr>is_video := True, media := Some hosted_video\<rparr>)
            = ''https://i.redd.it/abc.jpg''"
    by (simp add: example_post_def)
  have u2: "url gallery_hinted = ''https://imgur.com/gallery/abc''"
    by (simp add: gallery_hinted_def example_post_def)
  from classifier_rule1_priority
         [of "(example_post ''both'' ''https://i.redd.it/abc.jpg'')
                \<lparr>is_video := True, media := Some hosted_video\<rparr>"]
       classifier_rule1_priority [of gallery_hinted]
       ext r2 hint
  show ?thesis unfolding u1 u2 by simp
qed

section \<open>Sanitizer\<close>

text \<open>
  C4. The sanitizer is idempotent: for every list of posts and every set of allowed host
  names, filtering the filtered list again changes nothing.
\<close>

theorem sanitizer_idempotent:
  "sanitizeAndFilterImages pf (sanitizeAndFilterImages pf x allowed) allowed =
     sanitizeAndFilterImages pf x allowed"
  by (simp add: sanitizeAndFilterImages_filter)

text \<open>The five posts of the example below, filtered once and twice.\<close>

theorem sanitizer_idempotent_witness:
  "sanitizeAndFilterImages example_platform
     (sanitizeAndFilterImages example_platform
        [example_image ''a'' ''https://i.redd.it/abc.jpg'',
         example_image ''b'' ''ftp://i.redd.it/old.png'',
         (example_image ''d'' ''https://i.redd.it/x.png'')\<lparr>mediaType := Video\<rparr>]
        {''i.redd.it''})
     {''i.redd.it''}
   = sanitizeAndFilterImages example_platform
        [example_image ''a'' ''https://i.redd.it/abc.jpg'',
         example_image ''b'' ''ftp://i.redd.it/old.png'',
         (example_image ''d'' ''https://i.redd.it/x.png'')\<lparr>mediaType := Video\<rparr>]
        {''i.redd.it''}"
  using sanitizer_idempotent
    [of example_platform
        "[example_image ''a'' ''https://i.redd.it/abc.jpg'',
          example_image ''b'' ''ftp://i.redd.it/old.png'',
          (example_image ''d'' ''https://i.redd.it/x.png'')\<lparr>mediaType := Video\<rparr>]"
        "{''i.redd.it''}"]
  by simp

text \<open>
  C5. For every list of posts and every set of allowed host names, the output of the
  sanitizer is the list of the posts, in the order and as they are in the input, that are
  images and whose \<open>mediaUrl\<close> parses with scheme \<open>http:\<close> or \<open>https:\<close> and a host name
  of the set; it is a subsequence of the input. The parser of the platform rejects the
  empty string, which the hypothesis says.
\<close>

theorem sanitizer_exact:
  assumes "new_URL pf [] = None"
  shows "sanitizeAndFilterImages pf ms allowed = filter (sanitizer_policy pf allowed) ms
         \<and> subseq (sanitizeAndFilterImages pf ms allowed) ms"
  using assms by (simp add: sanitizeAndFilterImages_filter isValidAndAllowedUrl_policy)

text \<open>
  Five posts with the allowed host names of an application without configured hosts: the
  \<open>ftp\<close> link, the host outside the list and the video are dropped, the others kept as
  they are.
\<close>

theorem sanitizer_exact_witness:
  "new_URL example_platform [] = None
   \<and> sanitizeAndFilterImages example_platform
        [example_image ''a'' ''https://i.redd.it/abc.jpg'',
         example_image ''b'' ''ftp://i.redd.it/old.png'',
         example_image ''c'' ''https://cdn.example.org/cat.GIF'',
         (example_image ''d'' ''https://i.redd.it/x.png'')\<lparr>mediaType := Video\<rparr>,
         example_image ''e'' ''https://i.redd.it/x.png'']
        (getAllowedHostnames [])
      = [example_image ''a'' ''https://i.redd.it/abc.jpg'',
         example_image ''e'' ''https://i.redd.it/x.png'']"
proof -
  have pol: "filter (sanitizer_policy example_platform (getAllowedHostnames []))
        [example_image ''a'' ''https://i.redd.it/abc.jpg'',
         example_image ''b'' ''ftp://i.redd.it/old.png'',
         example_image ''c'' ''https://cdn.example.org/cat.GIF'',
         (example_image ''d'' ''https://i.redd.it/x.png'')\<lparr>mediaType := Video\<rparr>,
         example_image ''e'' ''https://i.redd.it/x.png'']
      = [example_image ''a'' ''https://i.redd.it/abc.jpg'',
         example_image ''e'' ''https://i.redd.it/x.png'']"
    by (simp add: sanitizer_policy_def example_image_def example_platform_def example_URL_def
          getAllowedHostnames_def)
  from sanitizer_exact [OF example_URL_empty] pol example_URL_empty show ?thesis by simp
qed

section \<open>Token manager\<close>

text \<open>
  C6. In every state of the token cache a process reaches in which a cached token exists:
  a call strictly before the stored expiry returns the cached token, sends no request and
  leaves the cache as it is; a call at or after the stored expiry sends exactly one
  request, the refresh at the grant endpoint.
\<close>

theorem token_cache_window:
  assumes "reachable (REDDIT_CLIENT_ID pf) (REDDIT_CLIENT_SECRET pf) cache"
    and "redditAccessToken cache = Some t"
    and "tokenExpiryTime cache = Some e"
  shows "(int (date_now pf) < e \<longrightarrow> getRedditAccessToken pf cache = (Inr t, cache, []))
       \<and> (e \<le> int (date_now pf) \<longrightarrow> snd (snd (getRedditAccessToken pf cache)) = [tokenUrl])"
proof -
  from reachable_cache [OF assms(1)] assms(2)
  have creds: "truthy (REDDIT_CLIENT_ID pf)" "truthy (REDDIT_CLIENT_SECRET pf)"
    and t: "t \<noteq> []"
    by (auto simp: empty_cache_def)
  have hit: "cache_hit (date_now pf) cache \<longleftrightarrow> int (date_now pf) < e"
    using assms(2,3) t by (auto simp: cache_hit_def truthy_def)
  show ?thesis
    using hit assms(2) creds
      getRedditAccessToken_hit [of pf cache]
      getRedditAccessToken_requests [of pf cache]
    by (auto simp: str_of_def)
qed

text \<open>
  The cache \<open>stale_cache\<close>, which a grant at time 0 has filled, at two calls of the same
  process: at time 0, before the expiry, and at time 1000000.
\<close>

theorem token_cache_window_witness:
  "reachable (REDDIT_CLIENT_ID early_platform) (REDDIT_CLIENT_SECRET early_platform) stale_cache
   \<and> reachable (REDDIT_CLIENT_ID example_platform) (REDDIT_CLIENT_SECRET example_platform)
       stale_cache
   \<and> redditAccessToken stale_cache = Some ''tok-0''
   \<and> tokenExpiryTime stale_cache = Some 5000
   \<and> int (date_now early_platform) < 5000
   \<and> getRedditAccessToken early_platform stale_cache = (Inr ''tok-0'', stale_cache, [])
   \<and> 5000 \<le> int (date_now example_platform)
   \<and> snd (snd (getRedditAccessToken example_platform stale_cache)) = [tokenUrl]"
proof -
  have r1: "reachable (REDDIT_CLIENT_ID early_platform) (REDDIT_CLIENT_SECRET early_platform)
              stale_cache"
    and r2: "reachable (REDDIT_CLIENT_ID example_platform) (REDDIT_CLIENT_SECRET example_platform)
               stale_cache"
    using reachable_stale_cache by (simp_all add: example_credentials)
  have tok: "redditAccessToken stale_cache = Some ''tok-0''"
    and ex: "tokenExpiryTime stale_cache = Some 5000"
    by (simp_all add: stale_cache_def)
  have early: "int (date_now early_platform) < 5000"
    by (simp add: early_platform_def)
  have late: "5000 \<le> int (date_now example_platform)"
    by (simp add: example_platform_def)
  from token_cache_window [OF r1 tok ex] token_cache_window [OF r2 tok ex]
       r1 r2 tok ex early late
  show ?thesis by simp
qed

text \<open>
  C8. Whenever the grant endpoint answers a request of \<open>getRedditAccessToken\<close> with
  status 401, the call fails with the error of the rejected authentication and leaves the
  cache empty, token and expiry both; the next call, with credentials configured, sends
  the grant request again.
\<close>

theorem grant_401_clears:
  assumes "\<not> cache_hit (date_now pf) cache"
    and "truthy (REDDIT_CLIENT_ID pf)" and "truthy (REDDIT_CLIENT_SECRET pf)"
    and "grant_endpoint pf = Inr response" and "status response = 401"
  shows "getRedditAccessToken pf cache =
           (Inl (Error ''Failed to authenticate with Reddit API. Status: 401 (Unauthorized). Please verify your REDDIT_CLIENT_ID and REDDIT_CLIENT_SECRET.''),
            empty_cache, [tokenUrl])
       \<and> (truthy (REDDIT_CLIENT_ID pf') \<and> truthy (REDDIT_CLIENT_SECRET pf')
            \<longrightarrow> snd (snd (getRedditAccessToken pf' (fst (snd (getRedditAccessToken pf cache)))))
                  = [tokenUrl])"
proof -
  have g: "grant_try pf cache =
      Inl (Error ''Failed to authenticate with Reddit API. Status: 401 (Unauthorized). Please verify your REDDIT_CLIENT_ID and REDDIT_CLIENT_SECRET.'',
           empty_cache)"
    using assms(4,5) by (simp add: grant_try_def ok_def string_of_nat_401 cleared_is_empty)
  have first: "getRedditAccessToken pf cache =
      (Inl (Error ''Failed to authenticate with Reddit API. Status: 401 (Unauthorized). Please verify your REDDIT_CLIENT_ID and REDDIT_CLIENT_SECRET.''),
       empty_cache, [tokenUrl])"
    using assms(1-3) by (simp add: getRedditAccessToken_def g cleared_is_empty)
  have miss: "\<not> cache_hit (date_now pf') empty_cache"
    by (simp add: cache_hit_def empty_cache_def truthy_def)
  show ?thesis
    using first getRedditAccessToken_requests [OF miss] by simp
qed

text \<open>The stale cache, and a grant endpoint that answers 401.\<close>

theorem grant_401_clears_witness:
  "\<not> cache_hit (date_now grant_401) stale_cache
   \<and> truthy (REDDIT_CLIENT_ID grant_401) \<and> truthy (REDDIT_CLIENT_SECRET grant_401)
   \<and> grant_endpoint grant_401 =
       Inr (Response 401 ''unauthorized''
              (Inr \<lparr>access_token = [], token_type = [], expires_in = 0\<rparr>))
   \<and> getRedditAccessToken grant_401 stale_cache =
       (Inl (Error ''Failed to authenticate with Reddit API. Status: 401 (Unauthorized). Please verify your REDDIT_CLIENT_ID and REDDIT_CLIENT_SECRET.''),
        empty_cache, [tokenUrl])
   \<and> snd (snd (getRedditAccessToken example_platform
                  (fst (snd (getRedditAccessToken grant_401 stale_cache))))) = [tokenUrl]"
proof -
  have miss: "\<not> cache_hit (date_now grant_401) stale_cache"
    by (simp add: cache_hit_def stale_cache_def grant_401_def example_platform_def truthy_def)
  have creds: "truthy (REDDIT_CLIENT_ID grant_401)" "truthy (REDDIT_CLIENT_SECRET grant_401)"
    "truthy (REDDIT_CLIENT_ID example_platform)" "truthy (REDDIT_CLIENT_SECRET example_platform)"
    by (simp_all add: grant_401_def example_platform_def truthy_def)
  have ep: "grant_endpoint grant_401 =
       Inr (Response 401 ''unauthorized''
              (Inr \<lparr>access_token = [], token_type = [], expires_in = 0\<rparr>))"
    by (simp add: grant_401_def)
  have st: "status (Response 401 ''unauthorized''
              (Inr \<lparr>access_token = [], token_type = [], expires_in = 0\<rparr>)) = 401"
    by simp
  from grant_401_clears [OF miss creds(1,2) ep st, of example_platform] miss creds ep
  show ?thesis by (simp add: example_token)
qed

text \<open>
  C10. Whatever makes a call of \<open>getRedditAccessToken\<close> fail (a 401 of the grant
  endpoint, another status outside 200 to 299, a token response that is malformed or not
  a bearer token, a network failure, missing credentials), the token cache is empty, token
  and expiry both, when the error propagates: no failed call leaves a cached token
  behind, in any state of the cache a process reaches.
\<close>

theorem token_failure_clears_cache:
  assumes "reachable (REDDIT_CLIENT_ID pf) (REDDIT_CLIENT_SECRET pf) cache"
    and "fst (getRedditAccessToken pf cache) = Inl err"
  shows "fst (snd (getRedditAccessToken pf cache)) = empty_cache"
proof -
  have miss: "\<not> cache_hit (date_now pf) cache"
    using assms(2) getRedditAccessToken_hit [of pf cache] by auto
  show ?thesis
  proof (cases "truthy (REDDIT_CLIENT_ID pf) \<and> truthy (REDDIT_CLIENT_SECRET pf)")
    case True
    with getRedditAccessToken_failure_clears [OF miss _ _ assms(2)] show ?thesis by simp
  next
    case False
    with reachable_cache [OF assms(1)] have "cache = empty_cache" by auto
    with getRedditAccessToken_no_credentials [OF miss False] show ?thesis by simp
  qed
qed

text \<open>
  The cache \<open>stale_cache\<close> at four failing calls of the process that filled it (a network
  failure, a 401, a 503, a token that is not a bearer token), and the first call of a
  process without a client id.
\<close>

theorem token_failure_clears_cache_witness:
  "reachable (REDDIT_CLIENT_ID network_down) (REDDIT_CLIENT_SECRET network_down) stale_cache
   \<and> fst (getRedditAccessToken network_down stale_cache)
       = Inl (Error ''Could not connect to Reddit API to get access token.'')
   \<and> fst (snd (getRedditAccessToken network_down stale_cache)) = empty_cache
   \<and> reachable (REDDIT_CLIENT_ID grant_401) (REDDIT_CLIENT_SECRET grant_401) stale_cache
   \<and> fst (getRedditAccessToken grant_401 stale_cache)
       = Inl (Error ''Failed to authenticate with Reddit API. Status: 401 (Unauthorized). Please verify your REDDIT_CLIENT_ID and REDDIT_CLIENT_SECRET.'')
   \<and> fst (snd (getRedditAccessToken grant_401 stale_cache)) = empty_cache
   \<and> reachable (REDDIT_CLIENT_ID grant_503) (REDDIT_CLIENT_SECRET grant_503) stale_cache
   \<and> fst (getRedditAccessToken grant_503 stale_cache)
       = Inl (Error ''Failed to authenticate with Reddit API. Status: 503'')
   \<and> fst (snd (getRedditAccessToken grant_503 stale_cache)) = empty_cache
   \<and> reachable (REDDIT_CLIENT_ID grant_not_bearer) (REDDIT_CLIENT_SECRET grant_not_bearer)
       stale_cache
   \<and> fst (getRedditAccessToken grant_not_bearer stale_cache)
       = Inl (Error ''Could not connect to Reddit API to get access token.'')
   \<and> fst (snd (getRedditAccessToken grant_not_bearer stale_cache)) = empty_cache
   \<and> reachable (REDDIT_CLIENT_ID no_credentials) (REDDIT_CLIENT_SECRET no_credentials)
       empty_cache
   \<and> fst (getRedditAccessToken no_credentials empty_cache)
       = Inl (Error ''Reddit API credentials are missing. Please configure them in your .env file.'')
   \<and> fst (snd (getRedditAccessToken no_credentials empty_cache)) = empty_cache"
proof -
  have r: "reachable (REDDIT_CLIENT_ID network_down) (REDDIT_CLIENT_SECRET network_down) stale_cache"
    "reachable (REDDIT_CLIENT_ID grant_401) (REDDIT_CLIENT_SECRET grant_401) stale_cache"
    "reachable (REDDIT_CLIENT_ID grant_503) (REDDIT_CLIENT_SECRET grant_503) stale_cache"
    "reachable (REDDIT_CLIENT_ID grant_not_bearer) (REDDIT_CLIENT_SECRET grant_not_bearer)
       stale_cache"
    using reachable_stale_cache by (simp_all add: example_credentials)
  have r0: "reachable (REDDIT_CLIENT_ID no_credentials) (REDDIT_CLIENT_SECRET no_credentials)
       empty_cache"
    by (rule reachable.start)
  have f1: "fst (getRedditAccessToken network_down stale_cache)
       = Inl (Error ''Could not connect to Reddit API to get access token.'')"
    by (simp add: network_down_call)
  have f2: "fst (getRedditAccessToken grant_401 stale_cache)
       = Inl (Error ''Failed to authenticate with Reddit API. Status: 401 (Unauthorized). Please verify your REDDIT_CLIENT_ID and REDDIT_CLIENT_SECRET.'')"
    by (simp add: grant_401_call)
  have f3: "fst (getRedditAccessToken grant_503 stale_cache)
       = Inl (Error ''Failed to authenticate with Reddit API. Status: 503'')"
    by (simp add: grant_503_call)
  have f4: "fst (getRedditAccessToken grant_not_bearer stale_cache)
       = Inl (Error ''Could not connect to Reddit API to get access token.'')"
    by (simp add: grant_not_bearer_call)
  have f5: "fst (getRedditAccessToken no_credentials empty_cache)
       = Inl (Error ''Reddit API credentials are missing. Please configure them in your .env file.'')"
    by (simp add: no_credentials_call)
  from token_failure_clears_cache [OF r(1) f1] token_failure_clears_cache [OF r(2) f2]
       token_failure_clears_cache [OF r(3) f3] token_failure_clears_cache [OF r(4) f4]
       token_failure_clears_cache [OF r0 f5]
       r r0 f1 f2 f3 f4 f5
  show ?thesis by simp
qed

section \<open>Listing fetcher: entries out of scope and failures\<close>

text \<open>
  C9. An entry that is not of kind \<open>t3\<close>, or is stickied, or is a gallery (or has no
  data) is skipped whole: the step of the loop leaves the list as it is and adds one to
  the count of skipped entries, whatever the entry holds, so the classifier has no part
  in it; and the list the loop builds is the one it builds from the listing without
  these entries.
\<close>

theorem out_of_scope_skipped:
  "(out_of_scope child \<longrightarrow> forEach_body child (mediaPosts, n) = (mediaPosts, n + 1))
   \<and> fst (forEach_children cs st)
       = fst (forEach_children (filter (\<lambda>c. \<not> out_of_scope c) cs) st)"
  using forEach_body_out_of_scope [of child mediaPosts n] forEach_children_skip [of cs st]
  by simp

text \<open>The stickied entry of the example of the specification, and the example listing.\<close>

theorem out_of_scope_skipped_witness:
  "out_of_scope (entry ''t3'' ((example_post ''pinned'' ''https://i.redd.it/x.png'')
                                 \<lparr>stickied := Some True\<rparr>))
   \<and> forEach_body (entry ''t3'' ((example_post ''pinned'' ''https://i.redd.it/x.png'')
                                    \<lparr>stickied := Some True\<rparr>)) ([], 0) = ([], 1)
   \<and> filter (\<lambda>c. \<not> out_of_scope c) example_children
       = [entry ''t3'' (example_post ''first'' ''https://i.redd.it/abc.jpg''),
          entry ''t3'' (example_post ''again'' ''https://i.redd.it/abc.jpg''),
          entry ''t3'' ((example_post ''clip'' ''https://v.redd.it/clip'')
                          \<lparr>is_video := True, media := Some hosted_video\<rparr>),
          entry ''t3'' (example_post [] ''https://cdn.example.org/cat.GIF'')]
   \<and> fst (forEach_children
            [entry ''t3'' (example_post ''first'' ''https://i.redd.it/abc.jpg''),
             entry ''t3'' (example_post ''again'' ''https://i.redd.it/abc.jpg''),
             entry ''t3'' ((example_post ''clip'' ''https://v.redd.it/clip'')
                             \<lparr>is_video := True, media := Some hosted_video\<rparr>),
             entry ''t3'' (example_post [] ''https://cdn.example.org/cat.GIF'')] ([], 0))
       = [example_image ''first'' ''https://i.redd.it/abc.jpg'',
          example_image ''Untitled Post'' ''https://cdn.example.org/cat.GIF'']"
proof -
  have out: "out_of_scope (entry ''t3'' ((example_post ''pinned'' ''https://i.redd.it/x.png'')
                                 \<lparr>stickied := Some True\<rparr>))"
    by (simp add: out_of_scope_def entry_def truthy_flag_def)
  have flt: "filter (\<lambda>c. \<not> out_of_scope c) example_children
       = [entry ''t3'' (example_post ''first'' ''https://i.redd.it/abc.jpg''),
          entry ''t3'' (example_post ''again'' ''https://i.redd.it/abc.jpg''),
          entry ''t3'' ((example_post ''clip'' ''https://v.redd.it/clip'')
                          \<lparr>is_video := True, media := Some hosted_video\<rparr>),
          entry ''t3'' (example_post [] ''https://cdn.example.org/cat.GIF'')]"
    by (simp add: example_children_def out_of_scope_def entry_def truthy_flag_def) 
       (simp add: example_post_def)
  from out_of_scope_skipped
         [of "entry ''t3'' ((example_post ''pinned'' ''https://i.redd.it/x.png'')
                              \<lparr>stickied := Some True\<rparr>)" "[]" 0 example_children "([], 0)"]
       out flt example_loop
  show ?thesis by simp
qed

text \<open>
  C7 at the statuses 429 and 403. \<open>scrapeTrendyImages\<close> fails there with the error it
  raises for any status it does not know, here 500: the errors made for 429 and 403
  carry \<open>(429 Too Many Requests)\<close> and \<open>(403 Forbidden)\<close>, the last \<open>catch\<close> block looks
  for \<open>(429)\<close> and \<open>(403)\<close>, finds neither and replaces the error.
\<close>

theorem listing_429_403_replaced:
  "fst (scrapeTrendyImages (listing_status 429 ''slow down'') ''https://www.reddit.com/r/pics/'' 25 empty_cache)
     = Inl (Error ''An unexpected error occurred while processing data from Reddit API for r/pics.'')
   \<and> fst (scrapeTrendyImages (listing_status 403 ''forbidden'') ''https://www.reddit.com/r/pics/'' 25 empty_cache)
     = Inl (Error ''An unexpected error occurred while processing data from Reddit API for r/pics.'')
   \<and> fst (scrapeTrendyImages (listing_status 500 ''oops'') ''https://www.reddit.com/r/pics/'' 25 empty_cache)
     = Inl (Error ''An unexpected error occurred while processing data from Reddit API for r/pics.'')
   \<and> \<not> str_includes ''An unexpected error occurred while processing data from Reddit API for r/pics.'' ''429''
   \<and> \<not> str_includes ''An unexpected error occurred while processing data from Reddit API for r/pics.'' ''403''"
  by (simp add: scrape_429 scrape_403 scrape_500)

end
